theory Spec2Isabelle
  imports Complex_Main "HOL-Library.AList" "HOL-Library.Log_Nat"
begin

section \<open>The trade engine of \<open>scripts/apps/ShopApplication.js\<close>\<close>

text \<open>
  The development embeds the trading logic of the class \<open>ShopApplication\<close>: the currency
  helpers, the trade balance, the confirmation predicate, the click handler that puts an
  item into a trade list, and \<open>executeTrade\<close> with \<open>#transferItem\<close>.

  Currency counts and quantities are integers (\<^typ>\<open>int\<close>). A property that is
  \<open>undefined\<close> or \<open>null\<close> is \<^term>\<open>None\<close>.
\<close>

subsection \<open>Numbers\<close>

text \<open>
  A JavaScript number is an IEEE 754 double. A finite double is held as the rational
  number it equals, and every arithmetic operation returns the exact result rounded to
  the nearest double, a tie going to the even significand. Infinity and NaN are not
  modelled: a result of magnitude \<open>2^1024\<close> or more is outside the model.

  For \<open>x > 0\<close>, \<open>floorlog2 x\<close> is the integer \<open>e\<close> with \<open>2^e \<le> x < 2^(e+1)\<close>.
\<close>

definition floorlog2 :: "rat \<Rightarrow> int" where
  "floorlog2 x = (if 1 \<le> x then bitlen \<lfloor>x\<rfloor> - 1 else - bitlen (\<lceil>1 / x\<rceil> - 1))"

definition roundTiesToEven :: "rat \<Rightarrow> int" where
  "roundTiesToEven r =
     (let f = \<lfloor>r\<rfloor>; d = r - of_int f
      in if d < 1 / 2 then f
         else if 1 / 2 < d then f + 1
         else if even f then f else f + 1)"

text \<open>
  The double nearest to \<open>x\<close>: \<open>x\<close> rounded to a multiple of the unit in the last of the
  53 bits of its significand, the exponent being at least that of the subnormals.
\<close>

definition roundDouble :: "rat \<Rightarrow> rat" where
  "roundDouble x =
     (if x = 0 then 0
      else (let e = max (floorlog2 \<bar>x\<bar>) (- 1022);
                ulp = power_int 2 (e - 52)
            in of_int (roundTiesToEven (x / ulp)) * ulp))"

text \<open>The operators \<open>a * b\<close>, \<open>a + b\<close> and \<open>a - b\<close> on numbers.\<close>

definition dmul :: "rat \<Rightarrow> rat \<Rightarrow> rat" where
  "dmul a b = roundDouble (a * b)"

definition dadd :: "rat \<Rightarrow> rat \<Rightarrow> rat" where
  "dadd a b = roundDouble (a + b)"

definition dsub :: "rat \<Rightarrow> rat \<Rightarrow> rat" where
  "dsub a b = roundDouble (a - b)"

text \<open>An integer count or quantity as the number that holds it.\<close>

definition num :: "int \<Rightarrow> rat" where
  "num n = roundDouble (of_int n)"

subsection \<open>Currency\<close>

datatype denom = PP | GP | EP | SP | CP

text \<open>A currency object: a property of it may be missing.\<close>

type_synonym currency = "denom \<Rightarrow> int option"

text \<open>The array \<open>['pp', 'gp', 'ep', 'sp', 'cp']\<close> of the two loops over the denominations.\<close>

definition denoms :: "denom list" where
  "denoms = [PP, GP, EP, SP, CP]"

text \<open>The operator \<open>x ?? d\<close>.\<close>

definition nullish :: "'a option \<Rightarrow> 'a \<Rightarrow> 'a" where
  "nullish x d = (case x of None \<Rightarrow> d | Some v \<Rightarrow> v)"

text \<open>The object literal \<open>{ pp: p, gp: g, ep: e, sp: s, cp: c }\<close>.\<close>

definition mkCurrency :: "int \<Rightarrow> int \<Rightarrow> int \<Rightarrow> int \<Rightarrow> int \<Rightarrow> currency" where
  "mkCurrency p g e s c = (\<lambda>d. Some (case d of PP \<Rightarrow> p | GP \<Rightarrow> g | EP \<Rightarrow> e | SP \<Rightarrow> s | CP \<Rightarrow> c))"

text \<open>
  \<open>#prepareCurrency(actor)\<close>, applied to the actor's \<open>system.currency\<close> (an actor without
  one is the currency object with no property).
\<close>

definition prepareCurrency :: "currency \<Rightarrow> currency" where
  "prepareCurrency cur =
     mkCurrency (nullish (cur PP) 0) (nullish (cur GP) 0) (nullish (cur EP) 0)
            (nullish (cur SP) 0) (nullish (cur CP) 0)"

text \<open>\<open>#calculateTotalGold(currency)\<close>.\<close>

definition calculateTotalGold :: "currency \<Rightarrow> rat" where
  "calculateTotalGold cur =
     dadd (dadd (dadd (dadd
       (dmul (num (nullish (cur PP) 0)) 10)
       (num (nullish (cur GP) 0)))
       (dmul (num (nullish (cur EP) 0)) (roundDouble (1 / 2))))
       (dmul (num (nullish (cur SP) 0)) (roundDouble (1 / 10))))
       (dmul (num (nullish (cur CP) 0)) (roundDouble (1 / 100)))"

text \<open>
  The specification's wording of the same function: the sum over all denominations of
  the count times the rate of the conversion table.
\<close>

fun conversionRate :: "denom \<Rightarrow> rat" where
  "conversionRate PP = 10"
| "conversionRate GP = 1"
| "conversionRate EP = 1 / 2"
| "conversionRate SP = 1 / 10"
| "conversionRate CP = 1 / 100"

definition normalize_spec :: "currency \<Rightarrow> rat" where
  "normalize_spec b = (\<Sum>d\<leftarrow>denoms. of_int (nullish (b d) 0) * conversionRate d)"

text \<open>
  \<open>String.prototype.toLowerCase\<close> on the characters of a denomination code: the letters
  \<open>A\<close> to \<open>Z\<close> move to \<open>a\<close> to \<open>z\<close>, every other character stays.
\<close>

definition toLowerCase_char :: "char \<Rightarrow> char" where
  "toLowerCase_char c =
     (case map_of (zip ''ABCDEFGHIJKLMNOPQRSTUVWXYZ'' ''abcdefghijklmnopqrstuvwxyz'') c of
        None \<Rightarrow> c
      | Some l \<Rightarrow> l)"

definition toLowerCase :: "string \<Rightarrow> string" where
  "toLowerCase s = map toLowerCase_char s"

text \<open>
  \<open>#toGold(amount, denom = 'gp')\<close>. A missing \<open>denom\<close> takes the default parameter, an
  empty or null one the \<open>'gp'\<close> of \<open>denom || 'gp'\<close>; the switch runs on the lower-cased
  code. \<open>Number(amount)\<close> is the amount as a number.
\<close>

definition toGold :: "rat \<Rightarrow> string option \<Rightarrow> rat" where
  "toGold amount denom =
     (let code = toLowerCase (case denom of None \<Rightarrow> ''gp''
                                | Some s \<Rightarrow> if s = [] then ''gp'' else s)
      in if code = ''pp'' then dmul (roundDouble amount) 10
         else if code = ''gp'' then roundDouble amount
         else if code = ''ep'' then dmul (roundDouble amount) (roundDouble (1 / 2))
         else if code = ''sp'' then dmul (roundDouble amount) (roundDouble (1 / 10))
         else if code = ''cp'' then dmul (roundDouble amount) (roundDouble (1 / 100))
         else roundDouble amount)"

subsection \<open>Items, actors and the document store\<close>

text \<open>
  An item document, with the properties the trade reads: \<open>name\<close>, \<open>type\<close>,
  \<open>flags.core.sourceId\<close>, \<open>system.quantity\<close>, the number at the configured
  \<open>itemPricePath\<close> (\<open>system.price.value\<close> by default) and \<open>system.price.denomination\<close>.
  The price is recorded as a rational and read as the number nearest to it.
\<close>

type_synonym item_id = nat

record item =
  name :: string
  type :: string
  sourceId :: "string option"
  quantity :: "int option"
  price :: "rat option"
  denomination :: "string option"

text \<open>An actor: its \<open>system.currency\<close> and the ids of its embedded items, in order.\<close>

record actor =
  currency :: currency
  items :: "item_id list"

datatype side = Player | Shop

text \<open>
  The calls the application makes on the host's documents: \<open>actor.update\<close> with the five
  currency counts, \<open>createEmbeddedDocuments\<close>, \<open>item.update\<close> of the quantity and
  \<open>item.delete\<close>.
\<close>

datatype call =
    UpdateCurrency side int int int int int
  | CreateItem side item
  | UpdateQuantity side item_id int
  | DeleteItem side item_id

text \<open>
  The host's state. A trade list holds references to item objects, and an object outlives
  its removal from the actor, so the documents live in a store \<open>docs\<close> by id, next to the
  actors that list the ids they own; \<open>nextId\<close> is the id the host gives to the next
  created document, and \<open>calls\<close> records the calls in the order they were issued.
  The player's actor and the shop's actor are two documents: an application opened on
  one actor in both roles is outside this model.
\<close>

record world =
  docs :: "item_id \<Rightarrow> item"
  nextId :: item_id
  playerActor :: actor
  shopActor :: actor
  calls :: "call list"

datatype error = DocumentNotFound side item_id

definition getActor :: "side \<Rightarrow> world \<Rightarrow> actor" where
  "getActor s w = (case s of Player \<Rightarrow> playerActor w | Shop \<Rightarrow> shopActor w)"

definition setActor :: "side \<Rightarrow> actor \<Rightarrow> world \<Rightarrow> world" where
  "setActor s a w = (case s of Player \<Rightarrow> w\<lparr>playerActor := a\<rparr> | Shop \<Rightarrow> w\<lparr>shopActor := a\<rparr>)"

text \<open>
  \<open>actor.update({'system.currency.pp': ..., ..., 'system.currency.cp': ...})\<close>: the five
  counts are stored.
\<close>

definition actor_update :: "side \<Rightarrow> (denom \<Rightarrow> int) \<Rightarrow> world \<Rightarrow> world" where
  "actor_update s new w =
     (setActor s ((getActor s w)\<lparr>currency := mkCurrency (new PP) (new GP) (new EP) (new SP) (new CP)\<rparr>) w)
       \<lparr>calls := calls w @ [UpdateCurrency s (new PP) (new GP) (new EP) (new SP) (new CP)]\<rparr>"

text \<open>
  \<open>item.update({'system.quantity': q})\<close> on an item of the actor \<open>s\<close>. The host rejects
  the update of a document that its actor no longer holds.
\<close>

definition item_update :: "side \<Rightarrow> item_id \<Rightarrow> int \<Rightarrow> world \<Rightarrow> (error \<times> world) + world" where
  "item_update s i q w =
     (if i \<in> set (items (getActor s w))
      then Inr (w\<lparr>docs := (docs w)(i := (docs w i)\<lparr>quantity := Some q\<rparr>),
                  calls := calls w @ [UpdateQuantity s i q]\<rparr>)
      else Inl (DocumentNotFound s i, w))"

text \<open>\<open>item.delete()\<close>: the item leaves its actor; the object itself stays readable.\<close>

definition item_delete :: "side \<Rightarrow> item_id \<Rightarrow> world \<Rightarrow> (error \<times> world) + world" where
  "item_delete s i w =
     (if i \<in> set (items (getActor s w))
      then Inr ((setActor s ((getActor s w)\<lparr>items := removeAll i (items (getActor s w))\<rparr>) w)
                  \<lparr>calls := calls w @ [DeleteItem s i]\<rparr>)
      else Inl (DocumentNotFound s i, w))"

text \<open>
  \<open>toActor.createEmbeddedDocuments('Item', [itemData])\<close>, with \<open>_id\<close> deleted from the
  data: the host gives the new document a new id and appends it to the actor's items.
\<close>

definition createEmbeddedDocuments :: "side \<Rightarrow> item \<Rightarrow> world \<Rightarrow> world" where
  "createEmbeddedDocuments s itemData w =
     (setActor s ((getActor s w)\<lparr>items := items (getActor s w) @ [nextId w]\<rparr>) w)
       \<lparr>docs := (docs w)(nextId w := itemData),
        nextId := Suc (nextId w),
        calls := calls w @ [CreateItem s itemData]\<rparr>"

subsection \<open>The application\<close>

text \<open>
  The fields of \<open>ShopApplication\<close> that hold the negotiation. A trade list is a
  \<open>Map\<close> from item id to \<open>{item, quantity}\<close>, kept as an association list in insertion
  order; the \<open>item\<close> of an entry is the document with the entry's key (both handlers store
  \<open>actor.items.get(itemId)\<close> under \<open>itemId\<close>), so an entry is the id and the quantity.
  The two actors are those of the \<^typ>\<open>world\<close>.
\<close>

record shopApplication =
  playerTradeItems :: "(item_id \<times> int) list"
  shopTradeItems :: "(item_id \<times> int) list"
  playerTradeCurrency :: currency
  shopTradeCurrency :: currency

definition tradeMap :: "side \<Rightarrow> shopApplication \<Rightarrow> (item_id \<times> int) list" where
  "tradeMap s app = (case s of Player \<Rightarrow> playerTradeItems app | Shop \<Rightarrow> shopTradeItems app)"

definition setTradeMap :: "side \<Rightarrow> (item_id \<times> int) list \<Rightarrow> shopApplication \<Rightarrow> shopApplication" where
  "setTradeMap s m app =
     (case s of Player \<Rightarrow> app\<lparr>playerTradeItems := m\<rparr> | Shop \<Rightarrow> app\<lparr>shopTradeItems := m\<rparr>)"

text \<open>
  The sum of \<open>price * quantity\<close> over a trade list, added entry by entry to the value of
  the offered currency, as the two loops of \<open>#calculateTradeBalance\<close> do: the price is
  \<open>getProperty(item, pricePath) ?? 0\<close>, the raw number.
\<close>

fun offerValue :: "world \<Rightarrow> (item_id \<times> int) list \<Rightarrow> rat \<Rightarrow> rat" where
  "offerValue w [] acc = acc"
| "offerValue w ((i, q) # rest) acc =
     offerValue w rest
       (dadd acc (dmul (roundDouble (nullish (price (docs w i)) 0)) (num q)))"

text \<open>\<open>#calculateTradeBalance()\<close>.\<close>

definition calculateTradeBalance :: "shopApplication \<Rightarrow> world \<Rightarrow> rat" where
  "calculateTradeBalance app w =
     (let playerOfferValue =
            offerValue w (playerTradeItems app) (calculateTotalGold (playerTradeCurrency app));
          shopOfferValue =
            offerValue w (shopTradeItems app) (calculateTotalGold (shopTradeCurrency app))
      in dsub shopOfferValue playerOfferValue)"

text \<open>
  The price of an item in gold as \<open>#prepareInventory\<close> computes it for the inventory
  lists (\<open>priceInGp\<close>): the raw number converted by the item's denomination, \<open>'gp'\<close> when
  the item has none.
\<close>

definition priceInGp :: "item \<Rightarrow> rat" where
  "priceInGp it =
     (let rawValue = roundDouble (nullish (price it) 0);
          denom = toLowerCase (nullish (denomination it) ''gp'')
      in toGold rawValue (Some denom))"

text \<open>
  The specification's wording of a basket's value and of the balance:
  \<open>normalize(currency)\<close> plus, for every entry, the item's price converted to the base
  unit by its denomination (\<open>toBaseUnit\<close>, the code's \<open>#toGold\<close>) times the quantity; the
  balance is the shop basket's value minus the player basket's.
\<close>

definition totalNormalizedValue_spec :: "world \<Rightarrow> (item_id \<times> int) list \<Rightarrow> currency \<Rightarrow> rat" where
  "totalNormalizedValue_spec w entries cur =
     normalize_spec cur
       + (\<Sum>(i, q)\<leftarrow>entries.
            toGold (nullish (price (docs w i)) 0) (denomination (docs w i)) * of_int q)"

definition balance_spec :: "shopApplication \<Rightarrow> world \<Rightarrow> rat" where
  "balance_spec app w =
     totalNormalizedValue_spec w (shopTradeItems app) (shopTradeCurrency app)
       - totalNormalizedValue_spec w (playerTradeItems app) (playerTradeCurrency app)"

text \<open>The comparison \<open>a > b\<close> where \<open>a\<close> may be \<open>undefined\<close>: then it is false.\<close>

definition js_gt :: "int option \<Rightarrow> int \<Rightarrow> bool" where
  "js_gt a b = (case a of None \<Rightarrow> False | Some x \<Rightarrow> x > b)"

text \<open>
  The loop of \<open>#canConfirmTrade\<close> over the denominations; \<^term>\<open>False\<close> is the loop's
  \<open>return false\<close>, \<^term>\<open>True\<close> its running to the end.
\<close>

fun currencyCheck :: "shopApplication \<Rightarrow> currency \<Rightarrow> currency \<Rightarrow> denom list \<Rightarrow> bool" where
  "currencyCheck app playerCurrency shopCurrency [] = True"
| "currencyCheck app playerCurrency shopCurrency (t # ts) =
     (if js_gt (playerTradeCurrency app t) (nullish (playerCurrency t) 0) then False
      else if js_gt (shopTradeCurrency app t) (nullish (shopCurrency t) 0) then False
      else currencyCheck app playerCurrency shopCurrency ts)"

text \<open>
  \<open>#canConfirmTrade(playerCurrency, shopCurrency)\<close>; the setting \<open>allowNegativeGold\<close> is
  the last argument.
\<close>

definition canConfirmTrade ::
  "shopApplication \<Rightarrow> world \<Rightarrow> currency \<Rightarrow> currency \<Rightarrow> bool \<Rightarrow> bool" where
  "canConfirmTrade app w playerCurrency shopCurrency allowNegative =
     (let hasPlayerOffer = (length (playerTradeItems app) > 0
                             \<or> calculateTotalGold (playerTradeCurrency app) > 0);
          hasShopOffer = (length (shopTradeItems app) > 0
                           \<or> calculateTotalGold (shopTradeCurrency app) > 0)
      in if \<not> hasPlayerOffer \<and> \<not> hasShopOffer then False
         else if \<not> allowNegative \<and> \<not> currencyCheck app playerCurrency shopCurrency denoms
           then False
         else if calculateTradeBalance app w > 0 then False
         else True)"

subsection \<open>Putting an item into a trade list\<close>

text \<open>
  What the user does with the quantity dialog: confirm with the text of the number
  field as \<open>parseInt\<close> reads it (\<^term>\<open>None\<close> is \<open>NaN\<close>), or cancel or close it.
\<close>

datatype dialog_action = DialogConfirm "int option" | DialogCancel

text \<open>
  \<open>#promptQuantity(itemName, maxQuantity)\<close>: \<open>parseInt(...) || 1\<close> clamped into
  \<open>[1, maxQuantity]\<close>, or \<open>null\<close>.
\<close>

definition promptQuantity :: "int \<Rightarrow> dialog_action \<Rightarrow> int option" where
  "promptQuantity maxQuantity a =
     (case a of
        DialogCancel \<Rightarrow> None
      | DialogConfirm v \<Rightarrow>
          (let qty = (case v of None \<Rightarrow> 1 | Some n \<Rightarrow> if n = 0 then 1 else n)
           in Some (min (max 1 qty) maxQuantity)))"

text \<open>
  \<open>#onInventoryItemClick(event)\<close> for the element of item \<open>itemId\<close> in the inventory of
  \<open>source\<close>; the dialog action is used only when the dialog opens.
\<close>

definition onInventoryItemClick ::
  "side \<Rightarrow> item_id \<Rightarrow> dialog_action \<Rightarrow> world \<Rightarrow> shopApplication \<Rightarrow> shopApplication" where
  "onInventoryItemClick source itemId a w app =
     (let actor = getActor source w;
          tm = tradeMap source app
      in if itemId \<notin> set (items actor) then app
         else if itemId \<in> fst ` set tm then setTradeMap source (AList.delete itemId tm) app
         else
           (let maxQuantity = nullish (quantity (docs w itemId)) 1
            in if maxQuantity > 1
               then (case promptQuantity maxQuantity a of
                       None \<Rightarrow> app
                     | Some q \<Rightarrow>
                         if q \<le> 0 then app
                         else setTradeMap source (AList.update itemId q tm) app)
               else setTradeMap source (AList.update itemId 1 tm) app))"

text \<open>
  The quantity that the handler settles on for an item that is not yet in the trade list
  (the lines from \<open>maxQuantity\<close> to the \<open>return\<close> after the dialog): 1 when the actor holds
  at most one, else the answer of the dialog; \<^term>\<open>None\<close> when the handler returns
  without offering the item.
\<close>

definition resolvedQuantity :: "world \<Rightarrow> item_id \<Rightarrow> dialog_action \<Rightarrow> int option" where
  "resolvedQuantity w itemId a =
     (let maxQuantity = nullish (quantity (docs w itemId)) 1
      in if maxQuantity > 1
         then (case promptQuantity maxQuantity a of
                 None \<Rightarrow> None
               | Some q \<Rightarrow> if q \<le> 0 then None else Some q)
         else Some 1)"

subsection \<open>Executing the trade\<close>

text \<open>
  The search of \<open>#transferItem\<close> for \<open>existingItem\<close>, the item of the target actor to
  stack onto: by \<open>flags.core.sourceId\<close> when the transferred item has a non-empty one,
  and when that finds nothing by name and type.
\<close>

definition existingItem :: "item_id \<Rightarrow> side \<Rightarrow> world \<Rightarrow> item_id option" where
  "existingItem it toActor w =
     (let toItems = items (getActor toActor w);
          bySourceId =
            (case sourceId (docs w it) of
               None \<Rightarrow> None
             | Some s \<Rightarrow>
                 if s = [] then None
                 else find (\<lambda>i. sourceId (docs w i) = Some s) toItems)
      in case bySourceId of
           Some e \<Rightarrow> Some e
         | None \<Rightarrow>
             find (\<lambda>i. name (docs w i) = name (docs w it)
                        \<and> type (docs w i) = type (docs w it)) toItems)"

text \<open>
  \<open>#transferItem(item, fromActor, toActor, quantity)\<close>. The result is \<^term>\<open>Inl\<close> with
  the error and the world as the failed call left it, or \<^term>\<open>Inr\<close> with the new world.
\<close>

definition transferItem ::
  "item_id \<Rightarrow> side \<Rightarrow> side \<Rightarrow> int \<Rightarrow> world \<Rightarrow> (error \<times> world) + world" where
  "transferItem it fromActor toActor qty w =
     (let placed =
            (case existingItem it toActor w of
               Some e \<Rightarrow>
                 (let existingQty = nullish (quantity (docs w e)) 1
                  in item_update toActor e (existingQty + qty) w)
             | None \<Rightarrow>
                 Inr (createEmbeddedDocuments toActor ((docs w it)\<lparr>quantity := Some qty\<rparr>) w))
      in case placed of
           Inl failure \<Rightarrow> Inl failure
         | Inr w1 \<Rightarrow>
             (let currentQty = nullish (quantity (docs w1 it)) 1
              in if currentQty \<le> qty then item_delete fromActor it w1
                 else item_update fromActor it (currentQty - qty) w1))"

text \<open>The loops \<open>for (const { item, quantity } of ...) await this.#transferItem(...)\<close>.\<close>

fun transferAll ::
  "side \<Rightarrow> side \<Rightarrow> (item_id \<times> int) list \<Rightarrow> world \<Rightarrow> (error \<times> world) + world" where
  "transferAll fromActor toActor [] w = Inr w"
| "transferAll fromActor toActor ((it, qty) # rest) w =
     (case transferItem it fromActor toActor qty w of
        Inl failure \<Rightarrow> Inl failure
      | Inr w1 \<Rightarrow> transferAll fromActor toActor rest w1)"

text \<open>
  How \<open>executeTrade\<close> ends: with the notification of success, or in its \<open>catch\<close> with the
  error notification.
\<close>

datatype outcome = Settled | Failed error

text \<open>
  \<open>executeTrade()\<close>: the new application state, the new world and the outcome. In the
  \<open>catch\<close> branch the trade lists and offered currency are as they were, and the world
  is as the calls before the failure left it.
\<close>

definition executeTrade :: "shopApplication \<Rightarrow> world \<Rightarrow> outcome \<times> shopApplication \<times> world" where
  "executeTrade app w =
     (let playerCurrency = prepareCurrency (currency (playerActor w));
          shopCurrency = prepareCurrency (currency (shopActor w));
          newPlayerCurrency =
            (\<lambda>t. nullish (playerCurrency t) 0 - nullish (playerTradeCurrency app t) 0
                   + nullish (shopTradeCurrency app t) 0);
          newShopCurrency =
            (\<lambda>t. nullish (shopCurrency t) 0 - nullish (shopTradeCurrency app t) 0
                   + nullish (playerTradeCurrency app t) 0);
          itemsToPlayer = shopTradeItems app;
          itemsToShop = playerTradeItems app;
          w1 = actor_update Player newPlayerCurrency w;
          w2 = actor_update Shop newShopCurrency w1
      in case transferAll Shop Player itemsToPlayer w2 of
           Inl (e, wx) \<Rightarrow> (Failed e, app, wx)
         | Inr w3 \<Rightarrow>
             (case transferAll Player Shop itemsToShop w3 of
                Inl (e, wx) \<Rightarrow> (Failed e, app, wx)
              | Inr w4 \<Rightarrow>
                  (Settled,
                   app\<lparr>playerTradeItems := [], shopTradeItems := [],
                       playerTradeCurrency := mkCurrency 0 0 0 0 0,
                       shopTradeCurrency := mkCurrency 0 0 0 0 0\<rparr>,
                   w4)))"

text \<open>The world a call sequence ends in, whether it failed or not.\<close>

definition worldOf :: "(error \<times> world) + world \<Rightarrow> world" where
  "worldOf r = (case r of Inl (e, w) \<Rightarrow> w | Inr w \<Rightarrow> w)"

subsection \<open>A shop, a player and some offers\<close>

text \<open>
  A shop with twenty arrows (5 sp each) and a ring (1 pp) that came from a compendium, and
  a player with a gem (1 gp, no quantity recorded) and five arrows; the player holds
  10 gp, the shop 5 gp.
\<close>

definition blankItem :: item where
  "blankItem = \<lparr>name = [], type = [], sourceId = None, quantity = None, price = None,
                 denomination = None\<rparr>"

definition w0 :: world where
  "w0 = \<lparr>docs = (\<lambda>_. blankItem)
            (1 := \<lparr>name = ''Arrows'', type = ''consumable'', sourceId = None,
                   quantity = Some 20, price = Some 5, denomination = Some ''sp''\<rparr>,
             2 := \<lparr>name = ''Ring'', type = ''equipment'', sourceId = Some ''Compendium.ring'',
                   quantity = Some 1, price = Some 1, denomination = Some ''pp''\<rparr>,
             3 := \<lparr>name = ''Gem'', type = ''loot'', sourceId = None,
                   quantity = None, price = Some 1, denomination = Some ''gp''\<rparr>,
             4 := \<lparr>name = ''Arrows'', type = ''consumable'', sourceId = None,
                   quantity = Some 5, price = Some 5, denomination = Some ''sp''\<rparr>),
          nextId = 5,
          playerActor = \<lparr>currency = mkCurrency 0 10 0 0 0, items = [3, 4]\<rparr>,
          shopActor = \<lparr>currency = mkCurrency 0 5 0 0 0, items = [1, 2]\<rparr>,
          calls = []\<rparr>"

text \<open>The application as its constructor leaves it, and as \<open>clearTrade\<close> resets it.\<close>

definition emptyApp :: shopApplication where
  "emptyApp = \<lparr>playerTradeItems = [], shopTradeItems = [],
                playerTradeCurrency = mkCurrency 0 0 0 0 0,
                shopTradeCurrency = mkCurrency 0 0 0 0 0\<rparr>"

text \<open>The shop offers one of its arrows, the player nothing.\<close>

definition arrowOffer :: shopApplication where
  "arrowOffer = emptyApp\<lparr>shopTradeItems := [(1, 1)]\<rparr>"

text \<open>The shop offers its ring, the player the gem.\<close>

definition ringForGem :: shopApplication where
  "ringForGem = emptyApp\<lparr>playerTradeItems := [(3, 1)], shopTradeItems := [(2, 1)]\<rparr>"

text \<open>The shop offers its 5 gp, the player nothing.\<close>

definition goldGift :: shopApplication where
  "goldGift = emptyApp\<lparr>shopTradeCurrency := mkCurrency 0 5 0 0 0\<rparr>"


text \<open>The player offers 20 gp, twice what the player holds.\<close>

definition overdraft :: shopApplication where
  "overdraft = emptyApp\<lparr>playerTradeCurrency := mkCurrency 0 20 0 0 0\<rparr>"

text \<open>The player offers three of the five arrows.\<close>

definition threeArrows :: shopApplication where
  "threeArrows = emptyApp\<lparr>playerTradeItems := [(4, 3)]\<rparr>"

section \<open>Properties\<close>

subsection \<open>Currency helpers\<close>

lemma nullish_simps [simp]:
  "nullish None d = d"
  "nullish (Some v) d = v"
  by (simp_all add: nullish_def)

lemma mkCurrency_apply [simp]:
  "mkCurrency p g e s c PP = Some p"
  "mkCurrency p g e s c GP = Some g"
  "mkCurrency p g e s c EP = Some e"
  "mkCurrency p g e s c SP = Some s"
  "mkCurrency p g e s c CP = Some c"
  by (simp_all add: mkCurrency_def)

subsection \<open>Rounding to a double\<close>

lemma floorlog2_le:
  assumes "0 < x"
  shows "power_int 2 (floorlog2 x) \<le> x"
proof (cases "1 \<le> x")
  case True
  then have pos: "0 < \<lfloor>x\<rfloor>" by simp
  from bitlen_bounds [OF pos] have "2 ^ nat (bitlen \<lfloor>x\<rfloor> - 1) \<le> \<lfloor>x\<rfloor>" by simp
  then have "(of_int (2 ^ nat (bitlen \<lfloor>x\<rfloor> - 1)) :: rat) \<le> of_int \<lfloor>x\<rfloor>"
    by (simp only: of_int_le_iff)
  also have "\<dots> \<le> x" by simp
  finally have "(2::rat) ^ nat (bitlen \<lfloor>x\<rfloor> - 1) \<le> x" by simp
  moreover from pos have "1 \<le> bitlen \<lfloor>x\<rfloor>"
    using bitlen_eq_zero_iff [of "\<lfloor>x\<rfloor>"] bitlen_nonneg [of "\<lfloor>x\<rfloor>"] by linarith
  ultimately show ?thesis
    using True by (simp add: floorlog2_def power_int_def)
next
  case False
  with assms have inv: "1 < 1 / x" by simp
  let ?n = "\<lceil>1 / x\<rceil> - 1"
  from inv have pos: "0 < ?n" by (simp add: less_ceiling_iff)
  from bitlen_bounds [OF pos] have "?n < 2 ^ nat (bitlen ?n)" by simp
  then have c: "\<lceil>1 / x\<rceil> \<le> 2 ^ nat (bitlen ?n)" by linarith
  have "1 / x \<le> of_int \<lceil>1 / x\<rceil>" by (rule le_of_int_ceiling)
  also from c have "(of_int \<lceil>1 / x\<rceil> :: rat) \<le> of_int (2 ^ nat (bitlen ?n))"
    by (simp only: of_int_le_iff)
  also have "(of_int (2 ^ nat (bitlen ?n)) :: rat) = 2 ^ nat (bitlen ?n)" by simp
  finally have "1 / x \<le> 2 ^ nat (bitlen ?n)" .
  with assms have "1 / 2 ^ nat (bitlen ?n) \<le> x"
    by (simp add: field_simps)
  moreover have "power_int (2::rat) (- bitlen ?n) = 1 / 2 ^ nat (bitlen ?n)"
    using bitlen_nonneg [of ?n] by (simp add: power_int_def power_one_over)
  ultimately show ?thesis
    using False by (simp add: floorlog2_def)
qed

lemma roundTiesToEven_of_int [simp]: "roundTiesToEven (of_int k) = k"
  by (simp add: roundTiesToEven_def)

lemma roundDouble_half_integer:
  assumes "\<bar>of_int m / 2 :: rat\<bar> < 2 ^ 52"
  shows "roundDouble (of_int m / 2) = of_int m / 2"
proof (cases "m = 0")
  case True
  then show ?thesis by (simp add: roundDouble_def)
next
  case False
  let ?x = "of_int m / 2 :: rat"
  let ?e = "max (floorlog2 \<bar>?x\<bar>) (- 1022)"
  from False have nz: "?x \<noteq> 0" and pos: "0 < \<bar>?x\<bar>" by simp_all
  have "floorlog2 \<bar>?x\<bar> < 52"
  proof (rule ccontr)
    assume "\<not> floorlog2 \<bar>?x\<bar> < 52"
    then have "power_int (2::rat) 52 \<le> power_int 2 (floorlog2 \<bar>?x\<bar>)"
      by (intro power_int_increasing) simp_all
    also have "\<dots> \<le> \<bar>?x\<bar>" using pos by (rule floorlog2_le)
    finally show False using assms by simp
  qed
  then have "?e \<le> 51" by simp
  define j where "j = nat (51 - ?e)"
  with \<open>?e \<le> 51\<close> have j: "?e - 52 = - int (Suc j)" by simp
  have ulp: "power_int (2::rat) (?e - 52) = 1 / 2 ^ Suc j"
    unfolding j by (simp only: power_int_minus_divide power_int_of_nat)
  have q: "?x / (1 / 2 ^ Suc j) = of_int (m * 2 ^ j)"
    by simp
  have "roundDouble ?x = of_int (roundTiesToEven (?x / (1 / 2 ^ Suc j))) * (1 / 2 ^ Suc j)"
    using nz unfolding roundDouble_def Let_def ulp by simp
  also have "\<dots> = of_int (m * 2 ^ j) * (1 / 2 ^ Suc j)"
    unfolding q roundTiesToEven_of_int ..
  also have "\<dots> = ?x" by simp
  finally show ?thesis .
qed

lemma roundDouble_integer:
  assumes "\<bar>n\<bar> < 2 ^ 52"
  shows "roundDouble (of_int n) = of_int n"
proof -
  have "\<bar>of_int (2 * n) / 2 :: rat\<bar> < 2 ^ 52"
    using assms by (simp add: abs_mult flip: of_int_abs) 
  from roundDouble_half_integer [OF this] show ?thesis by simp
qed

lemma roundDouble_half: "roundDouble (1 / 2) = 1 / 2"
  using roundDouble_half_integer [of 1] by simp

lemma roundDouble_zero [simp]: "roundDouble 0 = 0"
  by (simp add: roundDouble_def)

subsection \<open>The gold value of a currency object\<close>

text \<open>
  Claim C8, as stated, fails: \<open>#calculateTotalGold\<close> computes in doubles. For the bundle
  with 1 pp, 2 gp, 3 ep, 4 sp and 5 cp it returns \<open>13.950000000000001\<close>, the double
  \<open>7853151850227303 / 2^49\<close>, where \<open>10*pp + gp + 0.5*ep + 0.1*sp + 0.01*cp\<close> is
  \<open>13.95\<close>.
\<close>

theorem calculateTotalGold_counterexample:
  "calculateTotalGold (mkCurrency 1 2 3 4 5) = 7853151850227303 / 562949953421312
   \<and> 10 * 1 + 2 + (1 / 2) * 3 + (1 / 10) * 4 + (1 / 100) * 5 = (279 / 20 :: rat)
   \<and> calculateTotalGold (mkCurrency 1 2 3 4 5)
        \<noteq> 10 * 1 + 2 + (1 / 2) * 3 + (1 / 10) * 4 + (1 / 100) * 5"
  by code_simp

text \<open>
  Claim C8, amended. For every currency bundle with the counts \<open>pp\<close>, \<open>gp\<close>, \<open>ep\<close>, \<open>sp\<close>
  and \<open>cp\<close>, \<open>#calculateTotalGold\<close> returns \<open>10*pp + gp + 0.5*ep + 0.1*sp + 0.01*cp\<close>
  evaluated from left to right in double arithmetic: every product and every sum is
  rounded to the nearest double, and \<open>0.1\<close> and \<open>0.01\<close> are the doubles nearest to them.
  The result is the exact value \<open>10*pp + gp + 0.5*ep\<close> when \<open>sp\<close> and \<open>cp\<close> are 0 and
  the other counts are at most \<open>2^47\<close> in magnitude. The function reads its argument
  only: it takes no state and returns none.
\<close>

theorem calculateTotalGold_formula:
  "calculateTotalGold (mkCurrency pp gp ep sp cp) =
     dadd (dadd (dadd (dadd (dmul 10 (num pp)) (num gp))
                      (dmul (roundDouble (1 / 2)) (num ep)))
                (dmul (roundDouble (1 / 10)) (num sp)))
          (dmul (roundDouble (1 / 100)) (num cp))
   \<and> (\<bar>pp\<bar> \<le> 2 ^ 47 \<and> \<bar>gp\<bar> \<le> 2 ^ 47 \<and> \<bar>ep\<bar> \<le> 2 ^ 47 \<longrightarrow>
        calculateTotalGold (mkCurrency pp gp ep 0 0) =
          10 * of_int pp + of_int gp + (1 / 2) * of_int ep)"
proof (intro conjI impI)
  show "calculateTotalGold (mkCurrency pp gp ep sp cp) =
     dadd (dadd (dadd (dadd (dmul 10 (num pp)) (num gp))
                      (dmul (roundDouble (1 / 2)) (num ep)))
                (dmul (roundDouble (1 / 10)) (num sp)))
          (dmul (roundDouble (1 / 100)) (num cp))"
    by (simp add: calculateTotalGold_def dmul_def mult.commute)
next
  assume b: "\<bar>pp\<bar> \<le> 2 ^ 47 \<and> \<bar>gp\<bar> \<le> 2 ^ 47 \<and> \<bar>ep\<bar> \<le> 2 ^ 47"
  then have n: "\<bar>pp\<bar> \<le> 140737488355328" "\<bar>gp\<bar> \<le> 140737488355328"
    "\<bar>ep\<bar> \<le> 140737488355328"
    by simp_all
  have two52: "(2::int) ^ 52 = 4503599627370496" by simp
  have r1: "\<bar>pp\<bar> < 2 ^ 52" and r2: "\<bar>gp\<bar> < 2 ^ 52" and r3: "\<bar>ep\<bar> < 2 ^ 52"
    and r4: "\<bar>pp * 10\<bar> < 2 ^ 52" and r5: "\<bar>pp * 10 + gp\<bar> < 2 ^ 52"
    unfolding two52 using n by linarith+
  have r6: "\<bar>2 * (pp * 10 + gp) + ep\<bar> < 2 * 2 ^ 52"
    unfolding two52 abs_less_iff using n [unfolded abs_le_iff] by auto
  have p: "num pp = of_int pp" and g: "num gp = of_int gp" and e: "num ep = of_int ep"
    using r1 r2 r3 by (simp_all add: num_def roundDouble_integer)
  have s1: "dmul (of_int pp) 10 = of_int (pp * 10)"
    using roundDouble_integer [OF r4] by (simp add: dmul_def)
  have s2: "dadd (of_int (pp * 10)) (of_int gp) = of_int (pp * 10 + gp)"
    using roundDouble_integer [OF r5] by (simp add: dadd_def)
  have "\<bar>of_int ep / 2 :: rat\<bar> < 2 ^ 52"
  proof -
    from r3 have "\<bar>of_int ep :: rat\<bar> < of_int (2 ^ 52)"
      by (simp only: of_int_less_iff flip: of_int_abs)
    then show ?thesis by simp
  qed
  from roundDouble_half_integer [OF this]
  have s3: "dmul (of_int ep) (1 / 2) = of_int ep / 2"
    by (simp add: dmul_def)
  have "\<bar>of_int (2 * (pp * 10 + gp) + ep) / 2 :: rat\<bar> < 2 ^ 52"
  proof -
    from r6 have "\<bar>of_int (2 * (pp * 10 + gp) + ep) :: rat\<bar> < of_int (2 * 2 ^ 52)"
      by (simp only: of_int_less_iff flip: of_int_abs)
    then show ?thesis by simp
  qed
  from roundDouble_half_integer [OF this]
  have "roundDouble (of_int (2 * (pp * 10 + gp) + ep) / 2)
          = of_int (2 * (pp * 10 + gp) + ep) / 2" .
  moreover have "(of_int (2 * (pp * 10 + gp) + ep) / 2 :: rat)
          = of_int (pp * 10 + gp) + of_int ep / 2"
    by (simp add: add_divide_distrib)
  ultimately
  have s4: "dadd (of_int (pp * 10 + gp)) (of_int ep / 2) = of_int (pp * 10 + gp) + of_int ep / 2"
    unfolding dadd_def by (simp only:)
  have z: "num 0 = 0" by (simp add: num_def)
  have dz: "dmul 0 c = 0" for c by (simp add: dmul_def)
  have s5: "dadd (of_int (pp * 10 + gp) + of_int ep / 2) 0 = of_int (pp * 10 + gp) + of_int ep / 2"
    using s4 by (simp add: dadd_def)
  have "calculateTotalGold (mkCurrency pp gp ep 0 0) =
          dadd (dadd (of_int (pp * 10 + gp) + of_int ep / 2) 0) 0"
    unfolding calculateTotalGold_def mkCurrency_apply nullish_simps p g e z roundDouble_half
      s1 s2 s3 s4 dz ..
  also have "\<dots> = of_int (pp * 10 + gp) + of_int ep / 2"
    unfolding s5 ..
  also have "\<dots> = 10 * of_int pp + of_int gp + (1 / 2) * of_int ep"
    by simp
  finally show "calculateTotalGold (mkCurrency pp gp ep 0 0) =
          10 * of_int pp + of_int gp + (1 / 2) * of_int ep" .
qed

theorem calculateTotalGold_formula_witness:
  "\<bar>3 :: int\<bar> \<le> 2 ^ 47 \<and> \<bar>7 :: int\<bar> \<le> 2 ^ 47 \<and> \<bar>5 :: int\<bar> \<le> 2 ^ 47
   \<and> calculateTotalGold (mkCurrency 3 7 5 0 0) = 79 / 2"
  using calculateTotalGold_formula [of 3 7 5 0 0] by simp

lemma toLowerCase_simps [simp]:
  "toLowerCase [] = []"
  "toLowerCase (c # cs) = toLowerCase_char c # toLowerCase cs"
  by (simp_all add: toLowerCase_def)

lemma toLowerCase_char_gp:
  "toLowerCase_char CHR ''g'' = CHR ''g''"
  "toLowerCase_char CHR ''p'' = CHR ''p''"
  by (simp_all add: toLowerCase_char_def)

text \<open>
  Claim C9, as stated, fails: \<open>#toGold\<close> multiplies in doubles. For the amount 3 and the
  code \<open>sp\<close> it returns \<open>0.30000000000000004\<close>, the double \<open>1351079888211149 / 2^52\<close>,
  not 3 times 0.1.
\<close>

theorem toGold_counterexample:
  "roundDouble 3 = 3
   \<and> toGold 3 (Some ''sp'') = 1351079888211149 / 4503599627370496
   \<and> toGold 3 (Some ''sp'') \<noteq> 3 * (1 / 10)"
  by code_simp

text \<open>
  Claim C9, amended. For every number \<open>v\<close>, \<open>#toGold\<close> returns for the codes \<open>pp\<close>, \<open>ep\<close>,
  \<open>sp\<close> and \<open>cp\<close> the product of \<open>v\<close> and the double nearest to the conversion rate (10,
  0.5, 0.1, 0.01), rounded to the nearest double, and for \<open>gp\<close> it returns \<open>v\<close>. For \<open>pp\<close>
  and \<open>ep\<close> the result is exactly \<open>v\<close> times the rate when \<open>v\<close> is an integer of magnitude
  at most \<open>2^48\<close>. For every code outside \<open>pp\<close>, \<open>gp\<close>, \<open>ep\<close>, \<open>sp\<close>, \<open>cp\<close>, the code
  being lower-case as \<open>#prepareInventory\<close> passes it, and for a missing code, it
  returns \<open>v\<close> unchanged.
\<close>

theorem toGold_rates:
  assumes "roundDouble v = v"
  shows "toGold v (Some ''pp'') = roundDouble (v * 10)
   \<and> toGold v (Some ''gp'') = v
   \<and> toGold v (Some ''ep'') = roundDouble (v * (1 / 2))
   \<and> toGold v (Some ''sp'') = roundDouble (v * roundDouble (1 / 10))
   \<and> toGold v (Some ''cp'') = roundDouble (v * roundDouble (1 / 100))
   \<and> (v = of_int n \<and> \<bar>n\<bar> \<le> 2 ^ 48 \<longrightarrow>
        toGold v (Some ''pp'') = v * 10 \<and> toGold v (Some ''ep'') = v * (1 / 2))
   \<and> (toLowerCase d = d \<and> d \<notin> {''pp'', ''gp'', ''ep'', ''sp'', ''cp''} \<longrightarrow>
        toGold v (Some d) = v)
   \<and> toGold v None = v"
proof -
  have pp: "toGold v (Some ''pp'') = roundDouble (v * 10)"
    by (simp add: toGold_def toLowerCase_char_def dmul_def assms)
  have gp: "toGold v (Some ''gp'') = v"
    by (simp add: toGold_def toLowerCase_char_def dmul_def assms)
  have ep: "toGold v (Some ''ep'') = roundDouble (v * (1 / 2))"
    by (simp add: toGold_def toLowerCase_char_def dmul_def assms roundDouble_half)
  have sp: "toGold v (Some ''sp'') = roundDouble (v * roundDouble (1 / 10))"
    by (simp add: toGold_def toLowerCase_char_def dmul_def assms)
  have cp: "toGold v (Some ''cp'') = roundDouble (v * roundDouble (1 / 100))"
    by (simp add: toGold_def toLowerCase_char_def dmul_def assms)
  have none: "toGold v None = v"
    by (simp add: toGold_def toLowerCase_char_def dmul_def assms)
  have other: "toGold v (Some d) = v"
    if "toLowerCase d = d \<and> d \<notin> {''pp'', ''gp'', ''ep'', ''sp'', ''cp''}"
  proof (cases "d = []")
    case True
    then show ?thesis by (simp add: toGold_def toLowerCase_char_gp assms)
  next
    case False
    with that show ?thesis
      unfolding toGold_def Let_def option.case by (simp add: assms)
  qed
  have exact: "toGold v (Some ''pp'') = v * 10 \<and> toGold v (Some ''ep'') = v * (1 / 2)"
    if "v = of_int n \<and> \<bar>n\<bar> \<le> 2 ^ 48"
  proof -
    from that have n: "\<bar>n\<bar> \<le> 281474976710656" by simp
    have two52: "(2::int) ^ 52 = 4503599627370496" by simp
    have r1: "\<bar>n * 10\<bar> < 2 ^ 52" and r2: "\<bar>n\<bar> < 2 ^ 52"
      unfolding two52 using n by linarith+
    from roundDouble_integer [OF r1] that have "roundDouble (v * 10) = v * 10" by simp
    moreover have "\<bar>of_int n / 2 :: rat\<bar> < 2 ^ 52"
    proof -
      from r2 have "\<bar>of_int n :: rat\<bar> < of_int (2 ^ 52)"
        by (simp only: of_int_less_iff flip: of_int_abs)
      then show ?thesis by simp
    qed
    from roundDouble_half_integer [OF this] that have "roundDouble (v * (1 / 2)) = v * (1 / 2)"
      by simp
    ultimately show ?thesis using pp ep by simp
  qed
  from pp gp ep sp cp none other exact show ?thesis by blast
qed

theorem toGold_rates_witness:
  "roundDouble 3 = 3
   \<and> (3 :: rat) = of_int 3 \<and> \<bar>3 :: int\<bar> \<le> 2 ^ 48
   \<and> toLowerCase ''xp'' = ''xp'' \<and> ''xp'' \<notin> {''pp'', ''gp'', ''ep'', ''sp'', ''cp''}
   \<and> toGold 3 (Some ''pp'') = 30 \<and> toGold 3 (Some ''gp'') = 3
   \<and> toGold 3 (Some ''ep'') = 3 / 2
   \<and> toGold 3 (Some ''sp'') = roundDouble (3 * roundDouble (1 / 10))
   \<and> toGold 3 (Some ''cp'') = roundDouble (3 * roundDouble (1 / 100))
   \<and> toGold 3 (Some ''xp'') = 3 \<and> toGold 3 None = 3"
proof -
  have h: "roundDouble 3 = 3" by code_simp
  have l: "toLowerCase ''xp'' = ''xp''" by (simp add: toLowerCase_char_def)
  from toGold_rates [OF h, of 3 "''xp''"] h l show ?thesis by simp
qed

subsection \<open>The trade balance\<close>

text \<open>
  Claim C1 says that the balance is the shop basket's normalized value minus the player
  basket's, an item counting with its price converted by its denomination. The code adds
  the raw price number instead: when the shop offers one arrow priced 5 sp and the player
  nothing, \<open>#calculateTradeBalance\<close> returns 5, where the balance of the claim is 0.5, the
  value that \<open>#prepareInventory\<close> shows for the same arrow.
\<close>

theorem calculateTradeBalance_raw_price:
  "calculateTradeBalance arrowOffer w0 = 5 \<and> balance_spec arrowOffer w0 = 1 / 2
     \<and> priceInGp (docs w0 1) = 1 / 2"
  by code_simp

subsection \<open>The confirmation predicate\<close>

text \<open>
  Claim C3 says that a strictly positive balance over normalized values makes
  \<open>#canConfirmTrade\<close> false. The predicate tests the balance of raw price numbers: when
  the shop offers its ring (1 pp) for the player's gem (1 gp), the normalized balance is
  9 in the player's favour, the raw one is 0, and the trade can be confirmed.
\<close>

theorem canConfirmTrade_raw_price:
  "balance_spec ringForGem w0 = 9
     \<and> canConfirmTrade ringForGem w0 (prepareCurrency (currency (playerActor w0)))
          (prepareCurrency (currency (shopActor w0))) False"
  by code_simp

lemma currencyCheck_exceeds:
  "t \<in> set ts \<Longrightarrow>
   js_gt (playerTradeCurrency app t) (nullish (playerCurrency t) 0)
     \<or> js_gt (shopTradeCurrency app t) (nullish (shopCurrency t) 0) \<Longrightarrow>
   \<not> currencyCheck app playerCurrency shopCurrency ts"
  by (induction ts) auto

lemma denoms_all: "t \<in> set denoms"
  by (cases t) (simp_all add: denoms_def)

text \<open>
  Claim C4. With \<open>allowNegativeGold\<close> off, if for some denomination \<open>t\<close> the player's
  offered count exceeds the player's held count, or the shop's offered count the shop's
  held count, then \<open>#canConfirmTrade\<close> returns false, whatever the other denominations,
  the items and the balance are.
\<close>

theorem canConfirmTrade_per_denomination:
  assumes "\<not> allowNegative"
    and "(playerTradeCurrency app t = Some x \<and> x > nullish (playerCurrency t) 0)
         \<or> (shopTradeCurrency app t = Some x \<and> x > nullish (shopCurrency t) 0)"
  shows "\<not> canConfirmTrade app w playerCurrency shopCurrency allowNegative"
proof -
  from assms(2) have "js_gt (playerTradeCurrency app t) (nullish (playerCurrency t) 0)
       \<or> js_gt (shopTradeCurrency app t) (nullish (shopCurrency t) 0)"
    by (auto simp add: js_gt_def)
  with denoms_all have "\<not> currencyCheck app playerCurrency shopCurrency denoms"
    by (rule currencyCheck_exceeds)
  with assms(1) show ?thesis
    by (simp add: canConfirmTrade_def Let_def)
qed

theorem canConfirmTrade_per_denomination_witness:
  "playerTradeCurrency overdraft GP = Some 20
   \<and> 20 > nullish (prepareCurrency (currency (playerActor w0)) GP) 0
   \<and> \<not> canConfirmTrade overdraft w0 (prepareCurrency (currency (playerActor w0)))
        (prepareCurrency (currency (shopActor w0))) False"
  using canConfirmTrade_per_denomination [of False overdraft GP 20
      "prepareCurrency (currency (playerActor w0))" "prepareCurrency (currency (shopActor w0))" w0]
  by (simp add: overdraft_def emptyApp_def w0_def prepareCurrency_def)

lemma prepareCurrency_apply [simp]:
  "prepareCurrency cur t = Some (nullish (cur t) 0)"
  by (cases t) (simp_all add: prepareCurrency_def)

lemma mkCurrency_pointwise:
  "mkCurrency (f PP) (f GP) (f EP) (f SP) (f CP) t = Some (f t)"
  by (cases t) simp_all

subsection \<open>The document store and the calls of a trade\<close>

lemma getActor_setActor [simp]:
  "getActor s (setActor s' a w) = (if s = s' then a else getActor s w)"
  by (cases s; cases s') (simp_all add: getActor_def setActor_def)

lemma setActor_fields [simp]:
  "docs (setActor s a w) = docs w"
  "nextId (setActor s a w) = nextId w"
  "calls (setActor s a w) = calls w"
  by (cases s; simp add: setActor_def)+

lemma getActor_fields [simp]:
  "getActor s (w\<lparr>docs := d\<rparr>) = getActor s w"
  "getActor s (w\<lparr>nextId := n\<rparr>) = getActor s w"
  "getActor s (w\<lparr>calls := c\<rparr>) = getActor s w"
  by (cases s; simp add: getActor_def)+


lemma worldOf_simps [simp]:
  "worldOf (Inr w) = w"
  "worldOf (Inl (e, w)) = w"
  by (simp_all add: worldOf_def)


lemma calls_actor_update:
  "calls (actor_update s new w) =
     calls w @ [UpdateCurrency s (new PP) (new GP) (new EP) (new SP) (new CP)]"
  by (simp add: actor_update_def)





lemma calls_item_delete:
  "\<exists>cs. calls (worldOf (item_delete s i w)) = calls w @ cs"
  by (simp add: item_delete_def)








subsection \<open>Executing the trade\<close>

text \<open>
  Claim C2 says that \<open>executeTrade\<close> performs no exchange in a state in which
  \<open>#canConfirmTrade\<close> is false. The code commits all the same, for \<open>executeTrade\<close> and
  \<open>#onConfirm\<close> never call \<open>#canConfirmTrade\<close>. When the player offers 20 gp while holding
  10, with \<open>allowNegativeGold\<close> off, the trade cannot be confirmed; \<open>executeTrade\<close> issues
  both currency updates, stores \<open>-10\<close> gp for the player, resets the offer and reports the
  trade as completed. When the shop offers its 5 gp for nothing, the balance is 5 in the
  player's favour and the trade cannot be confirmed, with \<open>allowNegativeGold\<close> off or on;
  \<open>executeTrade\<close> moves the gold to the player.
\<close>

theorem executeTrade_commits_unconfirmable:
  "\<not> canConfirmTrade overdraft w0 (prepareCurrency (currency (playerActor w0)))
        (prepareCurrency (currency (shopActor w0))) False
   \<and> fst (executeTrade overdraft w0) = Settled
   \<and> calls w0 = []
   \<and> calls (snd (snd (executeTrade overdraft w0))) =
        [UpdateCurrency Player 0 (- 10) 0 0 0, UpdateCurrency Shop 0 25 0 0 0]
   \<and> currency (playerActor w0) GP = Some 10
   \<and> currency (playerActor (snd (snd (executeTrade overdraft w0)))) GP = Some (- 10)
   \<and> playerTradeCurrency overdraft GP = Some 20
   \<and> playerTradeCurrency (fst (snd (executeTrade overdraft w0))) GP = Some 0
   \<and> \<not> canConfirmTrade goldGift w0 (prepareCurrency (currency (playerActor w0)))
        (prepareCurrency (currency (shopActor w0))) False
   \<and> \<not> canConfirmTrade goldGift w0 (prepareCurrency (currency (playerActor w0)))
        (prepareCurrency (currency (shopActor w0))) True
   \<and> fst (executeTrade goldGift w0) = Settled
   \<and> calls (snd (snd (executeTrade goldGift w0))) =
        [UpdateCurrency Player 0 15 0 0 0, UpdateCurrency Shop 0 0 0 0 0]
   \<and> currency (playerActor (snd (snd (executeTrade goldGift w0)))) GP = Some 15
   \<and> shopTradeCurrency goldGift GP = Some 5
   \<and> shopTradeCurrency (fst (snd (executeTrade goldGift w0))) GP = Some 0"
  by code_simp




subsection \<open>Transferring an item\<close>






subsection \<open>Clicking an inventory item twice\<close>

lemma tradeMap_setTradeMap [simp]:
  "tradeMap s (setTradeMap s m app) = m"
  by (cases s) (simp_all add: tradeMap_def setTradeMap_def)

lemma setTradeMap_setTradeMap [simp]:
  "setTradeMap s m (setTradeMap s m' app) = setTradeMap s m app"
  by (cases s) (simp_all add: setTradeMap_def)

lemma setTradeMap_tradeMap [simp]:
  "setTradeMap s (tradeMap s app) app = app"
  by (cases s) (simp_all add: tradeMap_def setTradeMap_def)

lemma update_absent:
  "k \<notin> fst ` set al \<Longrightarrow> AList.update k v al = al @ [(k, v)]"
  by (induction al) auto

lemma delete_append_absent:
  "k \<notin> fst ` set al \<Longrightarrow> AList.delete k (al @ [(k, v)]) = al"
  by (induction al) auto

lemma click_absent:
  assumes "itemId \<in> set (items (getActor source w))"
    and "itemId \<notin> fst ` set (tradeMap source app)"
  shows "onInventoryItemClick source itemId a w app =
     (case resolvedQuantity w itemId a of
        None \<Rightarrow> app
      | Some q \<Rightarrow> setTradeMap source (tradeMap source app @ [(itemId, q)]) app)"
  using assms
  by (simp add: onInventoryItemClick_def resolvedQuantity_def Let_def update_absent
      split: option.split)

lemma click_present:
  assumes "itemId \<in> set (items (getActor source w))"
    and "itemId \<in> fst ` set (tradeMap source app)"
  shows "onInventoryItemClick source itemId a w app =
     setTradeMap source (AList.delete itemId (tradeMap source app)) app"
  using assms by (simp add: onInventoryItemClick_def Let_def)

lemma click_not_held:
  assumes "itemId \<notin> set (items (getActor source w))"
  shows "onInventoryItemClick source itemId a w app = app"
  using assms by (simp add: onInventoryItemClick_def Let_def)

text \<open>
  Claim C7, as stated, fails. The player offers three of five arrows; the first click on
  the arrows withdraws the offer, the second opens the quantity dialog, and confirmed
  with 2 it leaves an offer of two arrows, not of three.
\<close>

theorem onInventoryItemClick_counterexample:
  "playerTradeItems threeArrows = [(4, 3)]
   \<and> playerTradeItems
        (onInventoryItemClick Player 4 (DialogConfirm (Some 2)) w0
          (onInventoryItemClick Player 4 (DialogConfirm (Some 2)) w0 threeArrows)) = [(4, 2)]"
  by code_simp

text \<open>
  Claim C7, amended. Take two clicks on the same inventory item, the actor holding the
  item at both, with no other change of the trade list in between (the host's state may
  differ between the clicks). When the item was not in the trade list and the first click
  resolves a quantity (1 when the actor holds at most one, else the confirmed answer of
  the dialog), the first click appends the entry with that quantity and the second click
  removes it: the application is back in its prior state. When the item was in the trade
  list, the first click removes its entry and the second appends a new entry with the
  quantity resolved at the second click, or none when the dialog is cancelled; the prior
  content (same entries with the same quantities) is back exactly when the quantity
  resolved at the second click is the item's prior quantity. A click that resolves no
  quantity for an item not in the trade list, and a click on an item that the actor does
  not hold, change nothing.
\<close>

theorem onInventoryItemClick_twice:
  "(itemId \<in> set (items (getActor source w1)) \<and> itemId \<in> set (items (getActor source w2))
      \<and> itemId \<notin> fst ` set (tradeMap source app)
      \<and> resolvedQuantity w1 itemId a1 = Some q
     \<longrightarrow> onInventoryItemClick source itemId a1 w1 app
           = setTradeMap source (tradeMap source app @ [(itemId, q)]) app
         \<and> onInventoryItemClick source itemId a2 w2
             (onInventoryItemClick source itemId a1 w1 app) = app)
   \<and> (itemId \<in> set (items (getActor source w1)) \<and> itemId \<in> set (items (getActor source w2))
      \<and> itemId \<in> fst ` set (tradeMap source app)
     \<longrightarrow> onInventoryItemClick source itemId a1 w1 app
           = setTradeMap source (AList.delete itemId (tradeMap source app)) app
         \<and> onInventoryItemClick source itemId a2 w2
             (onInventoryItemClick source itemId a1 w1 app)
           = (case resolvedQuantity w2 itemId a2 of
                None \<Rightarrow> setTradeMap source (AList.delete itemId (tradeMap source app)) app
              | Some r \<Rightarrow>
                  setTradeMap source
                    (AList.delete itemId (tradeMap source app) @ [(itemId, r)]) app)
         \<and> (map_of (tradeMap source
                (onInventoryItemClick source itemId a2 w2
                  (onInventoryItemClick source itemId a1 w1 app)))
              = map_of (tradeMap source app)
            \<longleftrightarrow> resolvedQuantity w2 itemId a2 = map_of (tradeMap source app) itemId))
   \<and> (itemId \<in> set (items (getActor source w1))
      \<and> itemId \<notin> fst ` set (tradeMap source app)
      \<and> resolvedQuantity w1 itemId a1 = None
     \<longrightarrow> onInventoryItemClick source itemId a1 w1 app = app)
   \<and> (itemId \<notin> set (items (getActor source w1))
     \<longrightarrow> onInventoryItemClick source itemId a1 w1 app = app)"
proof (intro conjI impI)
  assume h: "itemId \<in> set (items (getActor source w1)) \<and> itemId \<in> set (items (getActor source w2))
      \<and> itemId \<notin> fst ` set (tradeMap source app)
      \<and> resolvedQuantity w1 itemId a1 = Some q"
  then show first: "onInventoryItemClick source itemId a1 w1 app
           = setTradeMap source (tradeMap source app @ [(itemId, q)]) app"
    by (simp add: click_absent)
  from h have "itemId \<in> fst ` set (tradeMap source
      (setTradeMap source (tradeMap source app @ [(itemId, q)]) app))"
    by simp
  with h show "onInventoryItemClick source itemId a2 w2
             (onInventoryItemClick source itemId a1 w1 app) = app"
    unfolding first by (simp add: click_present delete_append_absent)
next
  assume h: "itemId \<in> set (items (getActor source w1)) \<and> itemId \<in> set (items (getActor source w2))
      \<and> itemId \<in> fst ` set (tradeMap source app)"
  let ?tm = "tradeMap source app"
  let ?del = "AList.delete itemId ?tm"
  from h show first: "onInventoryItemClick source itemId a1 w1 app
           = setTradeMap source ?del app"
    by (simp add: click_present)
  have absent: "itemId \<notin> fst ` set (tradeMap source (setTradeMap source ?del app))"
    by (simp add: delete_notin_dom)
  with h show second: "onInventoryItemClick source itemId a2 w2
             (onInventoryItemClick source itemId a1 w1 app)
           = (case resolvedQuantity w2 itemId a2 of
                None \<Rightarrow> setTradeMap source ?del app
              | Some r \<Rightarrow> setTradeMap source (?del @ [(itemId, r)]) app)"
    unfolding first by (simp add: click_absent split: option.split)
  from h have "map_of ?tm itemId \<noteq> None"
    by (simp add: map_of_eq_None_iff)
  then obtain q0 where q0: "map_of ?tm itemId = Some q0"
    by blast
  show "map_of (tradeMap source
                (onInventoryItemClick source itemId a2 w2
                  (onInventoryItemClick source itemId a1 w1 app)))
              = map_of ?tm
            \<longleftrightarrow> resolvedQuantity w2 itemId a2 = map_of ?tm itemId"
  proof (cases "resolvedQuantity w2 itemId a2")
    case None
    then have "map_of (tradeMap source
                (onInventoryItemClick source itemId a2 w2
                  (onInventoryItemClick source itemId a1 w1 app))) itemId = None"
      unfolding second by (simp add: delete_conv')
    with q0 None show ?thesis by auto
  next
    case (Some r)
    then have m: "map_of (tradeMap source
                (onInventoryItemClick source itemId a2 w2
                  (onInventoryItemClick source itemId a1 w1 app)))
              = (map_of ?tm)(itemId \<mapsto> r)"
      unfolding second by (auto simp add: delete_conv' map_add_def fun_eq_iff split: option.split)
    show ?thesis
    proof
      assume "map_of (tradeMap source
                (onInventoryItemClick source itemId a2 w2
                  (onInventoryItemClick source itemId a1 w1 app))) = map_of ?tm"
      with m have "(map_of ?tm)(itemId \<mapsto> r) = map_of ?tm" by simp
      then have "map_of ?tm itemId = ((map_of ?tm)(itemId \<mapsto> r)) itemId" by simp
      then have "map_of ?tm itemId = Some r" by simp
      with Some show "resolvedQuantity w2 itemId a2 = map_of ?tm itemId" by simp
    next
      assume "resolvedQuantity w2 itemId a2 = map_of ?tm itemId"
      with Some have "map_of ?tm itemId = Some r" by simp
      then have "(map_of ?tm)(itemId \<mapsto> r) = map_of ?tm" by (rule map_upd_triv)
      with m show "map_of (tradeMap source
                (onInventoryItemClick source itemId a2 w2
                  (onInventoryItemClick source itemId a1 w1 app))) = map_of ?tm" by simp
    qed
  qed
next
  assume "itemId \<in> set (items (getActor source w1))
      \<and> itemId \<notin> fst ` set (tradeMap source app)
      \<and> resolvedQuantity w1 itemId a1 = None"
  then show "onInventoryItemClick source itemId a1 w1 app = app"
    by (simp add: click_absent)
next
  assume "itemId \<notin> set (items (getActor source w1))"
  then show "onInventoryItemClick source itemId a1 w1 app = app"
    by (rule click_not_held)
qed

theorem onInventoryItemClick_twice_witness:
  "(4 \<in> set (items (getActor Player w0)) \<and> 4 \<notin> fst ` set (tradeMap Player emptyApp)
      \<and> resolvedQuantity w0 4 (DialogConfirm (Some 2)) = Some 2
      \<and> tradeMap Player (onInventoryItemClick Player 4 (DialogConfirm (Some 2)) w0 emptyApp)
          = [(4, 2)]
      \<and> onInventoryItemClick Player 4 DialogCancel w0
           (onInventoryItemClick Player 4 (DialogConfirm (Some 2)) w0 emptyApp) = emptyApp)
   \<and> (4 \<in> fst ` set (tradeMap Player threeArrows)
      \<and> resolvedQuantity w0 4 (DialogConfirm (Some 3)) = Some 3
      \<and> map_of (tradeMap Player threeArrows) 4 = Some 3
      \<and> tradeMap Player (onInventoryItemClick Player 4 DialogCancel w0 threeArrows) = []
      \<and> tradeMap Player
            (onInventoryItemClick Player 4 (DialogConfirm (Some 3)) w0
              (onInventoryItemClick Player 4 DialogCancel w0 threeArrows)) = [(4, 3)]
      \<and> map_of (tradeMap Player
            (onInventoryItemClick Player 4 (DialogConfirm (Some 3)) w0
              (onInventoryItemClick Player 4 DialogCancel w0 threeArrows)))
          = map_of (tradeMap Player threeArrows))
   \<and> (resolvedQuantity w0 4 DialogCancel = None
      \<and> onInventoryItemClick Player 4 DialogCancel w0 emptyApp = emptyApp)
   \<and> (9 \<notin> set (items (getActor Player w0))
      \<and> onInventoryItemClick Player 9 DialogCancel w0 threeArrows = threeArrows)"
proof -
  let ?c1 = "onInventoryItemClick Player 4 (DialogConfirm (Some 2)) w0 emptyApp"
  let ?d1 = "onInventoryItemClick Player 4 DialogCancel w0 threeArrows"
  let ?d2 = "onInventoryItemClick Player 4 (DialogConfirm (Some 3)) w0 ?d1"
  have held: "4 \<in> set (items (getActor Player w0))"
    and absent: "4 \<notin> fst ` set (tradeMap Player emptyApp)"
    and r2: "resolvedQuantity w0 4 (DialogConfirm (Some 2)) = Some 2"
    and e: "tradeMap Player emptyApp = []"
    and present: "4 \<in> fst ` set (tradeMap Player threeArrows)"
    and r3: "resolvedQuantity w0 4 (DialogConfirm (Some 3)) = Some 3"
    and m3: "map_of (tradeMap Player threeArrows) 4 = Some 3"
    and del: "AList.delete 4 (tradeMap Player threeArrows) = []"
    and nine: "9 \<notin> set (items (getActor Player w0))"
    and rc: "resolvedQuantity w0 4 DialogCancel = None"
    by code_simp+
  from held absent r2
    onInventoryItemClick_twice [of 4 Player w0 w0 emptyApp "DialogConfirm (Some 2)" 2 DialogCancel]
  have a1: "?c1 = setTradeMap Player (tradeMap Player emptyApp @ [(4, 2)]) emptyApp"
    and a2: "onInventoryItemClick Player 4 DialogCancel w0 ?c1 = emptyApp"
    by blast+
  from held present
    onInventoryItemClick_twice [of 4 Player w0 w0 threeArrows DialogCancel 0 "DialogConfirm (Some 3)"]
  have b1: "?d1 = setTradeMap Player (AList.delete 4 (tradeMap Player threeArrows)) threeArrows"
    and b2: "?d2 = (case resolvedQuantity w0 4 (DialogConfirm (Some 3)) of
                None \<Rightarrow> setTradeMap Player (AList.delete 4 (tradeMap Player threeArrows)) threeArrows
              | Some r \<Rightarrow>
                  setTradeMap Player
                    (AList.delete 4 (tradeMap Player threeArrows) @ [(4, r)]) threeArrows)"
    and b3: "map_of (tradeMap Player ?d2) = map_of (tradeMap Player threeArrows)
            \<longleftrightarrow> resolvedQuantity w0 4 (DialogConfirm (Some 3))
                  = map_of (tradeMap Player threeArrows) 4"
    by blast+
  from nine
    onInventoryItemClick_twice [of 9 Player w0 w0 threeArrows DialogCancel 0 DialogCancel]
  have c1: "onInventoryItemClick Player 9 DialogCancel w0 threeArrows = threeArrows"
    by blast
  from held absent rc
    onInventoryItemClick_twice [of 4 Player w0 w0 emptyApp DialogCancel 0 DialogCancel]
  have d1: "onInventoryItemClick Player 4 DialogCancel w0 emptyApp = emptyApp"
    by blast
  have "tradeMap Player ?c1 = [(4, 2)]"
    unfolding a1 by (simp add: e)
  moreover have "tradeMap Player ?d1 = []"
    unfolding b1 by (simp add: del)
  moreover have "tradeMap Player ?d2 = [(4, 3)]"
    unfolding b2 r3 by (simp add: del)
  moreover have "map_of (tradeMap Player ?d2) = map_of (tradeMap Player threeArrows)"
    unfolding b3 r3 m3 ..
  ultimately show ?thesis
    using held absent r2 present r3 m3 nine a2 c1 rc d1 by (intro conjI)
qed

end
